theory Spec2Isabelle
  imports Main
begin

section \<open>Python values and errors\<close>

text \<open>
  The module \<^verbatim>\<open>characteristic.py\<close> synthesises comparison, representation,
  initialisation and immutability methods for a class from a list of attribute
  declarations. Attribute values are arbitrary Python objects; the model covers
  \<^verbatim>\<open>None\<close>, integers, strings, tuples of these, and the module's own sentinel
  \<^verbatim>\<open>NOTHING\<close>. On these values Python's \<^verbatim>\<open>==\<close> coincides with structural equality
  (the sentinel's class defines only \<^verbatim>\<open>__repr__\<close>, so it compares by identity, and it
  is a singleton), hence \<open>=\<close> of HOL stands for both \<^verbatim>\<open>==\<close> and \<^verbatim>\<open>is\<close> on them.
  Booleans and floats, which compare equal to integers across types, are left out.
\<close>

datatype pyval =
    PyNone
  | PyInt int
  | PyStr string
  | PyTuple "pyval list"
  | NOTHING

text \<open>
  Exceptions are values. \<open>ValueError\<close> and \<open>TypeError\<close> carry the message the
  module formats; \<open>AttributeError\<close> and \<open>RecursionError\<close> are raised by the
  interpreter (a missing attribute, the call stack exhausted).
\<close>

datatype error =
    ValueError string
  | TypeError string
  | AttributeError
  | RecursionError

text \<open>Truth value of an object, as \<^verbatim>\<open>if default_value:\<close> tests it.\<close>

fun truthy :: "pyval \<Rightarrow> bool" where
  "truthy PyNone = False"
| "truthy (PyInt i) = (i \<noteq> 0)"
| "truthy (PyStr s) = (s \<noteq> [])"
| "truthy (PyTuple vs) = (vs \<noteq> [])"
| "truthy NOTHING = True"

text \<open>\<^verbatim>\<open>"'{0}'".format(s)\<close> for a string \<open>s\<close>: the text between single quotes.\<close>

definition quoted :: "string \<Rightarrow> string" where
  "quoted s = [CHR 0x27] @ s @ [CHR 0x27]"

section \<open>Attribute\<close>

text \<open>
  A zero-argument callable object: its truth value (a function, a lambda or a
  class is truthy; an object with \<^verbatim>\<open>__call__\<close> may define \<^verbatim>\<open>__bool__\<close> otherwise) and
  what calling it does: it returns a value or raises.
\<close>

datatype factory = Callable (truth_value: bool) (call: "unit \<Rightarrow> error + pyval")

text \<open>
  \<^verbatim>\<open>class Attribute\<close> has the slots \<^verbatim>\<open>name\<close>, \<^verbatim>\<open>_default\<close> and \<^verbatim>\<open>_default_factory\<close>.
  A slot that was never assigned is \<open>None\<close> here; reading it in Python goes to
  \<^verbatim>\<open>__getattr__\<close>.
\<close>

record attribute =
  name :: string
  default' :: "pyval option"
  default_factory :: "factory option"

text \<open>
  \<^verbatim>\<open>Attribute.__init__(self, name, default_value=NOTHING, default_factory=None)\<close>.
  The argument \<open>default_factory\<close> is \<open>None\<close> for Python's \<^verbatim>\<open>None\<close>.
\<close>

definition Attribute_init :: "string \<Rightarrow> pyval \<Rightarrow> factory option \<Rightarrow> error + attribute" where
  "Attribute_init n default_value factory_arg =
     (if default_value \<noteq> NOTHING \<and> \<not> Option.is_none factory_arg
      then Inl (ValueError ''Passing both default_value and default_factory is ambiguous.'')
      else if default_value \<noteq> NOTHING
        then Inr \<lparr>name = n, default' = Some default_value, default_factory = None\<rparr>
      else if \<not> Option.is_none factory_arg
        then Inr \<lparr>name = n, default' = None, default_factory = factory_arg\<rparr>
      else Inr \<lparr>name = n, default' = Some NOTHING, default_factory = None\<rparr>)"

text \<open>
  \<^verbatim>\<open>Attribute.__getattr__(self, name)\<close>, reached only for a slot that is not set.
  Reading \<^verbatim>\<open>self._default_factory\<close> there raises \<open>AttributeError\<close> itself when
  that slot is empty; when it is set, the condition tests the truth value of the
  factory before calling it.
\<close>

definition Attribute_getattr :: "attribute \<Rightarrow> string \<Rightarrow> error + pyval" where
  "Attribute_getattr a nm =
     (if nm = ''_default''
      then (case default_factory a of
              None \<Rightarrow> Inl AttributeError
            | Some f \<Rightarrow> if truth_value f then call f () else Inl AttributeError)
      else Inl AttributeError)"

text \<open>The expression \<^verbatim>\<open>a._default\<close>: the slot when set, otherwise \<^verbatim>\<open>__getattr__\<close>.\<close>

definition get_default :: "attribute \<Rightarrow> error + pyval" where
  "get_default a =
     (case default' a of
        Some v \<Rightarrow> Inr v
      | None \<Rightarrow> Attribute_getattr a ''_default'')"

text \<open>
  \<^verbatim>\<open>Attribute(a)\<close>: the constructor called with a name only. Both defaults of the
  signature apply, so it takes the last branch (see \<open>Attribute_init_name_only\<close>).
\<close>

definition Attribute_of_name :: "string \<Rightarrow> attribute" where
  "Attribute_of_name n = \<lparr>name = n, default' = Some NOTHING, default_factory = None\<rparr>"

text \<open>
  Elements of an \<^verbatim>\<open>attrs\<close> argument: a plain name (\<^verbatim>\<open>str\<close>) or an instance of
  \<^verbatim>\<open>Attribute\<close>; \<^verbatim>\<open>isinstance(a, Attribute)\<close> is the case distinction.
\<close>

datatype attr_decl = Name string | Attr attribute

definition ensure_attributes :: "attr_decl list \<Rightarrow> attribute list" where
  "ensure_attributes attrs =
     map (\<lambda>a. case a of Name n \<Rightarrow> Attribute_of_name n | Attr at \<Rightarrow> at) attrs"

section \<open>Classes, instances and frames\<close>

text \<open>
  A class has an identity, a \<^verbatim>\<open>__name__\<close> and its bases; two distinct classes
  differ in \<open>tp_id\<close>, so \<^verbatim>\<open>a.__class__ is b.__class__\<close> is equality of these headers.
\<close>

datatype pytype = PyType (tp_id: nat) (tp_name: string) (tp_bases: "pytype list")

text \<open>
  \<open>subclass_of s t\<close>: the class \<open>s\<close> is a proper subclass of \<open>t\<close>, that is, \<open>t\<close> is
  reached from \<open>s\<close> through one or more \<^verbatim>\<open>__bases__\<close> steps.
\<close>

fun subclass_of :: "pytype \<Rightarrow> pytype \<Rightarrow> bool" where
  "subclass_of (PyType i n bs) t = (\<exists>b \<in> set bs. b = t \<or> subclass_of b t)"

text \<open>
  An instance: its class and its \<^verbatim>\<open>__dict__\<close>. Fields are ordinary names: the
  special attributes of Python objects (\<^verbatim>\<open>__class__\<close>, \<^verbatim>\<open>__dict__\<close>, ...) and the
  methods the decorators install are not used as field names, so a method such as
  \<^verbatim>\<open>self.__original_setattr__\<close> is found in the class of the instance and a field is
  found in the instance dictionary.
\<close>

record pyobj =
  ob_type :: pytype
  ob_dict :: "string \<rightharpoonup> pyval"

text \<open>
  A code object and a frame, as \<^verbatim>\<open>sys._getframe()\<close> exposes them. The frame of a
  call of the synthesized initializer or of the sentry runs the code object of
  that closure.
\<close>

record pycode =
  co_name :: string
  co_filename :: string
  co_firstlineno :: nat

record frame =
  f_code :: pycode
  f_lineno :: nat

definition characteristic_init_code :: pycode where
  "characteristic_init_code =
     \<lparr>co_name = ''characteristic_init'', co_filename = ''characteristic.py'', co_firstlineno = 261\<rparr>"

definition sentry_code :: pycode where
  "sentry_code =
     \<lparr>co_name = ''characteristic_immutability_sentry'', co_filename = ''characteristic.py'',
      co_firstlineno = 331\<rparr>"

text \<open>Keyword arguments and the legacy \<^verbatim>\<open>defaults\<close> dictionary, as association lists.\<close>

type_synonym kwargs = "(string \<times> pyval) list"

text \<open>
  The function objects found in a class namespace: the two methods of \<^verbatim>\<open>object\<close>
  the module reads, functions the user wrote (opaque), and the closures the
  decorators create, each with the variables it closes over.
\<close>

datatype pymethod =
    Object_setattr
  | Object_init
  | User_setattr "pyobj \<Rightarrow> string \<Rightarrow> pyval \<Rightarrow> error + pyobj"
  | User_init "pyobj \<Rightarrow> pyval list \<Rightarrow> kwargs \<Rightarrow> error + pyobj"
  | Fn_eq "attribute list"
  | Fn_ne "attribute list"
  | Fn_lt "attribute list"
  | Fn_le "attribute list"
  | Fn_gt "attribute list"
  | Fn_ge "attribute list"
  | Fn_hash "attribute list"
  | Fn_repr "attribute list"
  | Fn_characteristic_init "attribute list"
  | Fn_characteristic_immutability_sentry "string set"

text \<open>
  A class object: its header and the namespace attribute lookup on the class sees
  (its own entries and those of user-defined bases). The methods of \<^verbatim>\<open>object\<close> are
  the fallback of \<open>class_getattr\<close>. The namespace is a \<^verbatim>\<open>dict\<close>, which keeps its keys
  in the order they were first assigned (Python 3.7 and later): \<open>cl_keys\<close> is that
  order, for the function objects of \<open>cl_dict\<close>.
\<close>

record pyclass =
  cl_type :: pytype
  cl_dict :: "string \<rightharpoonup> pymethod"
  cl_keys :: "string list"

text \<open>\<^verbatim>\<open>getattr(cl, nm, d)\<close>.\<close>

definition class_getattr :: "pyclass \<Rightarrow> string \<Rightarrow> pymethod \<Rightarrow> pymethod" where
  "class_getattr cl nm d = (case cl_dict cl nm of Some m \<Rightarrow> m | None \<Rightarrow> d)"

text \<open>\<^verbatim>\<open>cl.__init__\<close> and \<^verbatim>\<open>cl.__setattr__\<close>: every class inherits them from \<^verbatim>\<open>object\<close>.\<close>

definition class_init :: "pyclass \<Rightarrow> pymethod" where
  "class_init cl = class_getattr cl ''__init__'' Object_init"

definition class_setattr :: "pyclass \<Rightarrow> pymethod" where
  "class_setattr cl = class_getattr cl ''__setattr__'' Object_setattr"

text \<open>\<^verbatim>\<open>cl.nm = m\<close>: a new key goes to the end, a key already there keeps its place.\<close>

definition class_set :: "pyclass \<Rightarrow> string \<Rightarrow> pymethod \<Rightarrow> pyclass" where
  "class_set cl nm m =
     cl\<lparr>cl_dict := (cl_dict cl)(nm \<mapsto> m),
        cl_keys := (if nm \<in> set (cl_keys cl) then cl_keys cl else cl_keys cl @ [nm])\<rparr>"

text \<open>\<^verbatim>\<open>getattr(obj, nm)\<close> for a field of an instance.\<close>

definition getattr_obj :: "pyobj \<Rightarrow> string \<Rightarrow> error + pyval" where
  "getattr_obj obj nm = (case ob_dict obj nm of None \<Rightarrow> Inl AttributeError | Some v \<Rightarrow> Inr v)"

section \<open>with\_cmp\<close>

text \<open>What a comparison method returns: a boolean or \<^verbatim>\<open>NotImplemented\<close>.\<close>

datatype cmp_result = PyBool bool | NotImplemented

text \<open>\<^verbatim>\<open>tuple(getattr(obj, a.name) for a in attrs)\<close>, evaluated left to right.\<close>

fun attrs_to_tuple :: "attribute list \<Rightarrow> pyobj \<Rightarrow> error + pyval list" where
  "attrs_to_tuple [] obj = Inr []"
| "attrs_to_tuple (a # attrs) obj =
     (case getattr_obj obj (name a) of
        Inl e \<Rightarrow> Inl e
      | Inr v \<Rightarrow> (case attrs_to_tuple attrs obj of
                   Inl e \<Rightarrow> Inl e
                 | Inr vs \<Rightarrow> Inr (v # vs)))"

definition eq :: "attribute list \<Rightarrow> pyobj \<Rightarrow> pyobj \<Rightarrow> error + cmp_result" where
  "eq attrs self other =
     (if ob_type other = ob_type self
      then (case attrs_to_tuple attrs self of
              Inl e \<Rightarrow> Inl e
            | Inr t1 \<Rightarrow> (case attrs_to_tuple attrs other of
                          Inl e \<Rightarrow> Inl e
                        | Inr t2 \<Rightarrow> Inr (PyBool (t1 = t2))))
      else Inr NotImplemented)"

definition ne :: "attribute list \<Rightarrow> pyobj \<Rightarrow> pyobj \<Rightarrow> error + cmp_result" where
  "ne attrs self other =
     (case eq attrs self other of
        Inl e \<Rightarrow> Inl e
      | Inr NotImplemented \<Rightarrow> Inr NotImplemented
      | Inr (PyBool result) \<Rightarrow> Inr (PyBool (\<not> result)))"

text \<open>
  Python's ordering of the modelled values (Python 3): integers by value, strings
  and tuples lexicographically, anything else raises \<open>TypeError\<close>. A tuple
  comparison looks for the first position where the elements are not equal and
  compares those two elements; when one tuple is a prefix of the other it compares
  the lengths.
\<close>

datatype cmpop = LT | LE | GT | GE

fun cmp_int :: "cmpop \<Rightarrow> int \<Rightarrow> int \<Rightarrow> bool" where
  "cmp_int LT a b = (a < b)"
| "cmp_int LE a b = (a \<le> b)"
| "cmp_int GT a b = (a > b)"
| "cmp_int GE a b = (a \<ge> b)"

fun cmp_str :: "cmpop \<Rightarrow> string \<Rightarrow> string \<Rightarrow> bool" where
  "cmp_str c [] [] = cmp_int c 0 0"
| "cmp_str c [] (y # ys) = cmp_int c 0 1"
| "cmp_str c (x # xs) [] = cmp_int c 1 0"
| "cmp_str c (x # xs) (y # ys) =
     (if x = y then cmp_str c xs ys else cmp_int c (of_char x) (of_char y))"

fun py_cmp :: "cmpop \<Rightarrow> pyval \<Rightarrow> pyval \<Rightarrow> error + bool"
  and tuple_cmp :: "cmpop \<Rightarrow> pyval list \<Rightarrow> pyval list \<Rightarrow> error + bool" where
  "py_cmp c (PyInt a) (PyInt b) = Inr (cmp_int c a b)"
| "py_cmp c (PyStr a) (PyStr b) = Inr (cmp_str c a b)"
| "py_cmp c (PyTuple a) (PyTuple b) = tuple_cmp c a b"
| "py_cmp c _ _ = Inl (TypeError ''unorderable types'')"
| "tuple_cmp c [] [] = Inr (cmp_int c 0 0)"
| "tuple_cmp c [] (y # ys) = Inr (cmp_int c 0 1)"
| "tuple_cmp c (x # xs) [] = Inr (cmp_int c 1 0)"
| "tuple_cmp c (x # xs) (y # ys) =
     (if x = y then tuple_cmp c xs ys else py_cmp c x y)"

text \<open>The four ordering methods share one body up to the operator.\<close>

definition ordering :: "cmpop \<Rightarrow> attribute list \<Rightarrow> pyobj \<Rightarrow> pyobj \<Rightarrow> error + cmp_result" where
  "ordering c attrs self other =
     (if ob_type other = ob_type self
      then (case attrs_to_tuple attrs self of
              Inl e \<Rightarrow> Inl e
            | Inr t1 \<Rightarrow> (case attrs_to_tuple attrs other of
                          Inl e \<Rightarrow> Inl e
                        | Inr t2 \<Rightarrow> (case tuple_cmp c t1 t2 of
                                      Inl e \<Rightarrow> Inl e
                                    | Inr b \<Rightarrow> Inr (PyBool b))))
      else Inr NotImplemented)"

definition lt :: "attribute list \<Rightarrow> pyobj \<Rightarrow> pyobj \<Rightarrow> error + cmp_result" where
  "lt = ordering LT"

definition le :: "attribute list \<Rightarrow> pyobj \<Rightarrow> pyobj \<Rightarrow> error + cmp_result" where
  "le = ordering LE"

definition gt :: "attribute list \<Rightarrow> pyobj \<Rightarrow> pyobj \<Rightarrow> error + cmp_result" where
  "gt = ordering GT"

definition ge :: "attribute list \<Rightarrow> pyobj \<Rightarrow> pyobj \<Rightarrow> error + cmp_result" where
  "ge = ordering GE"


text \<open>\<^verbatim>\<open>wrap(cl)\<close> of \<^verbatim>\<open>with_cmp\<close>: seven assignments to the class, in order.\<close>

definition with_cmp_wrap :: "attribute list \<Rightarrow> pyclass \<Rightarrow> pyclass" where
  "with_cmp_wrap attrs cl =
     (let cl = class_set cl ''__eq__'' (Fn_eq attrs);
          cl = class_set cl ''__ne__'' (Fn_ne attrs);
          cl = class_set cl ''__lt__'' (Fn_lt attrs);
          cl = class_set cl ''__le__'' (Fn_le attrs);
          cl = class_set cl ''__gt__'' (Fn_gt attrs);
          cl = class_set cl ''__ge__'' (Fn_ge attrs);
          cl = class_set cl ''__hash__'' (Fn_hash attrs)
      in cl)"

definition with_cmp :: "attr_decl list \<Rightarrow> pyclass \<Rightarrow> pyclass" where
  "with_cmp attrs = with_cmp_wrap (ensure_attributes attrs)"

section \<open>with\_repr\<close>

text \<open>
  \<^verbatim>\<open>wrap(cl)\<close> of \<^verbatim>\<open>with_repr\<close>. The body of \<^verbatim>\<open>repr_\<close> formats text only and is
  not needed below; the closure is kept as the tag \<open>Fn_repr\<close>.
\<close>

definition with_repr_wrap :: "attribute list \<Rightarrow> pyclass \<Rightarrow> pyclass" where
  "with_repr_wrap attrs cl = class_set cl ''__repr__'' (Fn_repr attrs)"

definition with_repr :: "attr_decl list \<Rightarrow> pyclass \<Rightarrow> pyclass" where
  "with_repr attrs = with_repr_wrap (ensure_attributes attrs)"

section \<open>immutable\<close>

definition VALID_INITS :: "string set" where
  "VALID_INITS = {''characteristic_init'', ''__init__''}"

text \<open>
  \<^verbatim>\<open>characteristic_immutability_sentry(self, attr, value)\<close>. \<open>attrs\<close> is the frozenset
  the closure holds, \<open>prev\<close> is \<^verbatim>\<open>sys._getframe().f_back\<close> (\<open>None\<close> when the sentry has
  no calling Python frame), and \<open>original_setattr\<close> is the bound method
  \<^verbatim>\<open>self.__original_setattr__\<close>, which \<open>call_setattr\<close> below looks up in the class.
\<close>

definition characteristic_immutability_sentry ::
  "string set \<Rightarrow> (pyobj \<Rightarrow> string \<Rightarrow> pyval \<Rightarrow> error + pyobj) \<Rightarrow> frame option
     \<Rightarrow> pyobj \<Rightarrow> string \<Rightarrow> pyval \<Rightarrow> error + pyobj" where
  "characteristic_immutability_sentry attrs original_setattr prev self attr v =
     (if attr \<notin> attrs
         \<or> (case prev of None \<Rightarrow> False | Some fr \<Rightarrow> co_name (f_code fr) \<in> VALID_INITS)
      then original_setattr self attr v
      else Inl (TypeError (''Attribute '' @ quoted attr @ '' of class ''
                             @ quoted (tp_name (ob_type self)) @ '' is immutable.'')))"

text \<open>
  Calling the function object \<open>m\<close> as \<^verbatim>\<open>m(self, attr, value)\<close> on the instance
  \<open>self\<close>, whose class object is \<open>cl\<close>, from the frame \<open>prev\<close>. The first argument is the call depth left:
  Python raises \<open>RecursionError\<close> when the stack is exhausted, which a namespace
  whose \<^verbatim>\<open>__original_setattr__\<close> is a sentry reaches. \<^verbatim>\<open>object.__setattr__\<close> stores
  into the instance dictionary. The comparison, representation and initializer
  closures do not stand in these slots of a class the decorators built from one
  with an ordinary \<^verbatim>\<open>__setattr__\<close>; called with these arguments they are a
  \<open>TypeError\<close> here.
\<close>

fun call_setattr ::
  "nat \<Rightarrow> pyclass \<Rightarrow> pymethod \<Rightarrow> frame option \<Rightarrow> pyobj \<Rightarrow> string \<Rightarrow> pyval \<Rightarrow> error + pyobj" where
  "call_setattr 0 cl m prev self attr v = Inl RecursionError"
| "call_setattr (Suc n) cl Object_setattr prev self attr v =
     Inr (self\<lparr>ob_dict := (ob_dict self)(attr \<mapsto> v)\<rparr>)"
| "call_setattr (Suc n) cl (User_setattr f) prev self attr v = f self attr v"
| "call_setattr (Suc n) cl (Fn_characteristic_immutability_sentry attrs) prev self attr v =
     characteristic_immutability_sentry attrs
       (\<lambda>self attr v.
          case cl_dict cl ''__original_setattr__'' of
            None \<Rightarrow> Inl AttributeError
          | Some m \<Rightarrow> call_setattr n cl m (Some \<lparr>f_code = sentry_code, f_lineno = 345\<rparr>) self attr v)
       prev self attr v"
| "call_setattr (Suc n) cl _ prev self attr v =
     Inl (TypeError ''wrong number of arguments'')"

text \<open>The statement \<^verbatim>\<open>obj.attr = v\<close> executed in the frame \<open>fr\<close>: \<^verbatim>\<open>type(obj).__setattr__\<close>.\<close>

definition setattr_stmt ::
  "nat \<Rightarrow> pyclass \<Rightarrow> frame \<Rightarrow> pyobj \<Rightarrow> string \<Rightarrow> pyval \<Rightarrow> error + pyobj" where
  "setattr_stmt n cl fr obj attr v = call_setattr n cl (class_setattr cl) (Some fr) obj attr v"

text \<open>\<^verbatim>\<open>wrap(cl)\<close> of \<^verbatim>\<open>immutable\<close>, and the decorator with its frozenset of names.\<close>

definition immutable_wrap :: "string set \<Rightarrow> pyclass \<Rightarrow> pyclass" where
  "immutable_wrap attrs cl =
     (let cl = class_set cl ''__original_setattr__'' (class_setattr cl);
          cl = class_set cl ''__setattr__'' (Fn_characteristic_immutability_sentry attrs)
      in cl)"

definition immutable :: "attr_decl list \<Rightarrow> pyclass \<Rightarrow> pyclass" where
  "immutable attrs = immutable_wrap (set (map name (ensure_attributes attrs)))"

section \<open>with\_init\<close>

text \<open>\<^verbatim>\<open>kw.pop(k, d)\<close>: the value and the dictionary without the key.\<close>

definition kw_pop :: "kwargs \<Rightarrow> string \<Rightarrow> pyval \<Rightarrow> pyval \<times> kwargs" where
  "kw_pop kw k d =
     (case map_of kw k of
        None \<Rightarrow> (d, kw)
      | Some v \<Rightarrow> (v, filter (\<lambda>kv. fst kv \<noteq> k) kw))"

text \<open>
  The \<^verbatim>\<open>for a in attrs\<close> loop of \<^verbatim>\<open>characteristic_init\<close>; \<open>characteristic_setattr\<close> is
  the bound method \<^verbatim>\<open>self.__characteristic_setattr__\<close>. It returns the instance and
  the keyword arguments that are left.
\<close>

fun characteristic_init_loop ::
  "(pyobj \<Rightarrow> string \<Rightarrow> pyval \<Rightarrow> error + pyobj) \<Rightarrow> attribute list \<Rightarrow> pyobj \<Rightarrow> kwargs
     \<Rightarrow> error + pyobj \<times> kwargs" where
  "characteristic_init_loop characteristic_setattr [] self kw = Inr (self, kw)"
| "characteristic_init_loop characteristic_setattr (a # attrs) self kw =
     (case kw_pop kw (name a) NOTHING of
        (v, kw') \<Rightarrow>
          (case (if v = NOTHING then get_default a else Inr v) of
             Inl e \<Rightarrow> Inl e
           | Inr v \<Rightarrow>
               if v = NOTHING
               then Inl (ValueError (''Missing keyword value for '' @ quoted (name a) @ ''.''))
               else (case characteristic_setattr self (name a) v of
                       Inl e \<Rightarrow> Inl e
                     | Inr self' \<Rightarrow>
                         characteristic_init_loop characteristic_setattr attrs self' kw')))"

text \<open>
  \<^verbatim>\<open>characteristic_init(self, *args, **kw)\<close>; \<open>original_init\<close> is the bound method
  \<^verbatim>\<open>self.__original_init__\<close>.
\<close>

definition characteristic_init ::
  "(pyobj \<Rightarrow> string \<Rightarrow> pyval \<Rightarrow> error + pyobj)
     \<Rightarrow> (pyobj \<Rightarrow> pyval list \<Rightarrow> kwargs \<Rightarrow> error + pyobj)
     \<Rightarrow> attribute list \<Rightarrow> pyobj \<Rightarrow> pyval list \<Rightarrow> kwargs \<Rightarrow> error + pyobj" where
  "characteristic_init characteristic_setattr original_init attrs self args kw =
     (case characteristic_init_loop characteristic_setattr attrs self kw of
        Inl e \<Rightarrow> Inl e
      | Inr (self', kw') \<Rightarrow> original_init self' args kw')"

text \<open>
  Calling the function object \<open>m\<close> as \<^verbatim>\<open>m(self, *args, **kw)\<close> on an instance of the
  class \<open>cl\<close>, with the call depth left. \<^verbatim>\<open>object.__init__\<close> of Python 3 refuses
  arguments.
\<close>

fun call_init ::
  "nat \<Rightarrow> pyclass \<Rightarrow> pymethod \<Rightarrow> pyobj \<Rightarrow> pyval list \<Rightarrow> kwargs \<Rightarrow> error + pyobj" where
  "call_init 0 cl m self args kw = Inl RecursionError"
| "call_init (Suc n) cl Object_init self args kw =
     (if args = [] \<and> kw = [] then Inr self
      else Inl (TypeError ''object.__init__() takes exactly one argument (the instance to initialize)''))"
| "call_init (Suc n) cl (User_init f) self args kw = f self args kw"
| "call_init (Suc n) cl (Fn_characteristic_init attrs) self args kw =
     characteristic_init
       (\<lambda>self attr v.
          case cl_dict cl ''__characteristic_setattr__'' of
            None \<Rightarrow> Inl AttributeError
          | Some m \<Rightarrow>
              call_setattr n cl m (Some \<lparr>f_code = characteristic_init_code, f_lineno = 279\<rparr>)
                self attr v)
       (\<lambda>self args kw.
          case cl_dict cl ''__original_init__'' of
            None \<Rightarrow> Inl AttributeError
          | Some m \<Rightarrow> call_init n cl m self args kw)
       attrs self args kw"
| "call_init (Suc n) cl _ self args kw =
     Inl (TypeError ''wrong number of arguments'')"

text \<open>\<^verbatim>\<open>cl(*args, **kw)\<close>: a new instance with an empty dictionary, then \<^verbatim>\<open>__init__\<close>.\<close>

definition construct :: "nat \<Rightarrow> pyclass \<Rightarrow> pyval list \<Rightarrow> kwargs \<Rightarrow> error + pyobj" where
  "construct n cl args kw =
     call_init n cl (class_init cl) \<lparr>ob_type = cl_type cl, ob_dict = Map.empty\<rparr> args kw"

text \<open>\<^verbatim>\<open>wrap(cl)\<close> of \<^verbatim>\<open>with_init\<close>: three assignments, in order.\<close>

definition with_init_wrap :: "attribute list \<Rightarrow> pyclass \<Rightarrow> pyclass" where
  "with_init_wrap attrs cl =
     (let cl = class_set cl ''__original_init__'' (class_init cl);
          cl = class_set cl ''__init__'' (Fn_characteristic_init attrs);
          cl = class_set cl ''__characteristic_setattr__''
                 (class_getattr cl ''__original_setattr__'' (class_setattr cl))
      in cl)"

text \<open>The message of the \<open>ValueError\<close> that \<^verbatim>\<open>with_init\<close> raises.\<close>

definition mixing_message :: string where
  "mixing_message =
     ''Mixing of the 'defaults' keyword argument and passing ''
     @ ''instances of Attribute for 'attrs' is prohibited.  ''
     @ ''Please don't use 'defaults' anymore, it has been ''
     @ ''deprecated in 14.0.''"

text \<open>
  The loop of \<^verbatim>\<open>with_init\<close> that builds \<^verbatim>\<open>new_attrs\<close>. \<^verbatim>\<open>defaults != {}\<close> is
  non-emptiness of the dictionary, \<^verbatim>\<open>defaults.get(a)\<close> is \<^verbatim>\<open>None\<close> for a missing key.
\<close>

definition dict_get :: "kwargs \<Rightarrow> string \<Rightarrow> pyval" where
  "dict_get d k = (case map_of d k of None \<Rightarrow> PyNone | Some v \<Rightarrow> v)"

fun new_attrs_loop :: "kwargs \<Rightarrow> attribute list \<Rightarrow> attr_decl list \<Rightarrow> error + attribute list" where
  "new_attrs_loop defaults new_attrs [] = Inr new_attrs"
| "new_attrs_loop defaults new_attrs (Attr a # attrs) =
     (if defaults \<noteq> []
      then Inl (ValueError mixing_message)
      else new_attrs_loop defaults (new_attrs @ [a]) attrs)"
| "new_attrs_loop defaults new_attrs (Name a # attrs) =
     (let default_value = dict_get defaults a in
      if truthy default_value
      then (case Attribute_init a default_value None of
              Inl e \<Rightarrow> Inl e
            | Inr at \<Rightarrow> new_attrs_loop defaults (new_attrs @ [at]) attrs)
      else new_attrs_loop defaults (new_attrs @ [Attribute_of_name a]) attrs)"

text \<open>
  \<^verbatim>\<open>with_init(attrs, defaults=None)\<close>: it raises, or returns the decorator \<^verbatim>\<open>wrap\<close>
  closed over \<^verbatim>\<open>new_attrs\<close>.
\<close>

definition with_init_attrs :: "attr_decl list \<Rightarrow> kwargs option \<Rightarrow> error + attribute list" where
  "with_init_attrs attrs defaults =
     new_attrs_loop (case defaults of None \<Rightarrow> [] | Some d \<Rightarrow> d) [] attrs"

definition with_init :: "attr_decl list \<Rightarrow> kwargs option \<Rightarrow> error + (pyclass \<Rightarrow> pyclass)" where
  "with_init attrs defaults =
     (case with_init_attrs attrs defaults of
        Inl e \<Rightarrow> Inl e
      | Inr new_attrs \<Rightarrow> Inr (with_init_wrap new_attrs))"

section \<open>attributes\<close>

text \<open>
  \<^verbatim>\<open>wrap(cl)\<close> of \<^verbatim>\<open>attributes(attrs, defaults, create_init, make_immutable)\<close>. The
  decorators assign to the class object in place, so the result is the exception
  raised, if any, together with the class object as it then stands.
\<close>

definition attributes ::
  "attr_decl list \<Rightarrow> kwargs option \<Rightarrow> bool \<Rightarrow> bool \<Rightarrow> pyclass \<Rightarrow> error option \<times> pyclass" where
  "attributes attrs defaults create_init make_immutable cl =
     (let cl = with_cmp attrs (with_repr attrs cl);
          cl = (if make_immutable then immutable attrs cl else cl)
      in if create_init
         then (case with_init attrs defaults of
                 Inl e \<Rightarrow> (Some e, cl)
               | Inr wrap \<Rightarrow> (None, wrap cl))
         else (None, cl))"

section \<open>Text of a message\<close>

text \<open>\<open>mentions msg s\<close>: the text \<open>s\<close> occurs in the message \<open>msg\<close>.\<close>

primrec mentions :: "string \<Rightarrow> string \<Rightarrow> bool" where
  "mentions [] s = (s = [])"
| "mentions (c # cs) s = (take (length s) (c # cs) = s \<or> mentions cs s)"

section \<open>A class and two frames for the examples\<close>

text \<open>\<^verbatim>\<open>class Point(object): pass\<close>, before any decorator is applied.\<close>

definition Point :: pyclass where
  "Point = \<lparr>cl_type = PyType 1 ''Point'' [], cl_dict = Map.empty, cl_keys = []\<rparr>"

text \<open>
  A frame of module-level code, and a frame of the \<^verbatim>\<open>__init__\<close> method of some other
  class, defined in another file.
\<close>

definition module_frame :: frame where
  "module_frame =
     \<lparr>f_code = \<lparr>co_name = ''<module>'', co_filename = ''main.py'', co_firstlineno = 1\<rparr>,
      f_lineno = 12\<rparr>"

definition foreign_init_frame :: frame where
  "foreign_init_frame =
     \<lparr>f_code = \<lparr>co_name = ''__init__'', co_filename = ''other.py'', co_firstlineno = 4\<rparr>,
      f_lineno = 5\<rparr>"

section \<open>Properties of the attribute constructor\<close>

text \<open>
  C8. Constructing an attribute with both a default value and a default factory
  raises the \<open>ValueError\<close> of the constructor and yields no attribute; with at most
  one of the two (or neither) the constructor returns the attribute, holding the
  default value, the factory, or the sentinel for "required".
\<close>

theorem Attribute_init_conflict:
  "(dv \<noteq> NOTHING \<and> df \<noteq> None \<longrightarrow>
      Attribute_init n dv df =
        Inl (ValueError ''Passing both default_value and default_factory is ambiguous.''))
   \<and> (dv = NOTHING \<or> df = None \<longrightarrow>
      Attribute_init n dv df =
        Inr \<lparr>name = n,
             default' = (if dv \<noteq> NOTHING then Some dv else if df \<noteq> None then None else Some NOTHING),
             default_factory = (if dv \<noteq> NOTHING then None else df)\<rparr>)"
  by (cases df) (auto simp: Attribute_init_def Option.is_none_def)

theorem Attribute_init_conflict_witness:
  "Attribute_init ''x'' (PyInt 1) (Some (Callable True (\<lambda>_. Inr (PyInt 2)))) =
     Inl (ValueError ''Passing both default_value and default_factory is ambiguous.'')
   \<and> Attribute_init ''x'' (PyInt 1) None =
     Inr \<lparr>name = ''x'', default' = Some (PyInt 1), default_factory = None\<rparr>
   \<and> Attribute_init ''x'' NOTHING None =
     Inr \<lparr>name = ''x'', default' = Some NOTHING, default_factory = None\<rparr>"
  using Attribute_init_conflict [of "PyInt 1" "Some (Callable True (\<lambda>_. Inr (PyInt 2)))" "''x''"]
        Attribute_init_conflict [of "PyInt 1" None "''x''"]
        Attribute_init_conflict [of NOTHING None "''x''"]
  by simp

section \<open>Properties of the comparison methods\<close>

lemma Attribute_init_name_only: "Attribute_init n NOTHING None = Inr (Attribute_of_name n)"
  by (simp add: Attribute_init_def Attribute_of_name_def)

lemma subclass_of_size: "subclass_of s t \<Longrightarrow> size t < size s"
proof (induction s t rule: subclass_of.induct)
  case (1 i n bs t)
  then obtain b where b: "b \<in> set bs" "b = t \<or> subclass_of b t" by auto
  have "size b < size (PyType i n bs)" using b(1) by (induction bs) auto
  moreover have "size t \<le> size b" using b 1 by force
  ultimately show ?case by simp
qed

lemma subclass_of_neq: "subclass_of s t \<Longrightarrow> s \<noteq> t"
  using subclass_of_size by blast

lemma attrs_to_tuple_present:
  "\<forall>x \<in> set attrs. ob_dict obj (name x) \<noteq> None \<Longrightarrow>
     attrs_to_tuple attrs obj = Inr (map (\<lambda>x. the (ob_dict obj (name x))) attrs)"
  by (induction attrs) (auto simp: getattr_obj_def)

lemma map_the_eq_iff:
  "\<forall>x \<in> set attrs. ob_dict a (name x) \<noteq> None \<and> ob_dict b (name x) \<noteq> None \<Longrightarrow>
   (map (\<lambda>x. the (ob_dict a (name x))) attrs = map (\<lambda>x. the (ob_dict b (name x))) attrs)
     = (\<forall>x \<in> set attrs. ob_dict a (name x) = ob_dict b (name x))"
  by (induction attrs) auto

text \<open>
  C3. \<open>eq attrs a b\<close> is \<^verbatim>\<open>a.__eq__(b)\<close>. When the classes of the two instances differ
  it returns \<^verbatim>\<open>NotImplemented\<close> without raising, and so does \<open>ne\<close>; in particular an
  instance of a proper subclass is not equal to an instance of its base, whatever
  the fields hold. When the classes are the same and every declared attribute is
  set on both instances, \<open>eq\<close> returns whether the declared attributes are pairwise
  equal, and \<open>ne\<close> the negation. In every case \<open>ne\<close> is \<open>eq\<close> with a boolean negated
  and \<^verbatim>\<open>NotImplemented\<close> (or an exception) passed on unchanged.
\<close>

theorem eq_exact_type:
  "(ob_type b \<noteq> ob_type a \<longrightarrow>
      eq attrs a b = Inr NotImplemented \<and> ne attrs a b = Inr NotImplemented)
   \<and> (subclass_of (ob_type b) (ob_type a) \<longrightarrow> eq attrs a b = Inr NotImplemented)
   \<and> (ob_type b = ob_type a
        \<and> (\<forall>x \<in> set attrs. ob_dict a (name x) \<noteq> None \<and> ob_dict b (name x) \<noteq> None) \<longrightarrow>
      eq attrs a b = Inr (PyBool (\<forall>x \<in> set attrs. ob_dict a (name x) = ob_dict b (name x)))
      \<and> ne attrs a b = Inr (PyBool (\<not> (\<forall>x \<in> set attrs. ob_dict a (name x) = ob_dict b (name x)))))
   \<and> ne attrs a b =
       (case eq attrs a b of
          Inl e \<Rightarrow> Inl e
        | Inr NotImplemented \<Rightarrow> Inr NotImplemented
        | Inr (PyBool r) \<Rightarrow> Inr (PyBool (\<not> r)))"
proof (intro conjI impI)
  assume "ob_type b \<noteq> ob_type a"
  then show "eq attrs a b = Inr NotImplemented" by (simp add: eq_def)
  then show "ne attrs a b = Inr NotImplemented" by (simp add: ne_def)
next
  assume "subclass_of (ob_type b) (ob_type a)"
  then have "ob_type b \<noteq> ob_type a" by (rule subclass_of_neq)
  then show "eq attrs a b = Inr NotImplemented" by (simp add: eq_def)
next
  assume h: "ob_type b = ob_type a
        \<and> (\<forall>x \<in> set attrs. ob_dict a (name x) \<noteq> None \<and> ob_dict b (name x) \<noteq> None)"
  then have ta: "attrs_to_tuple attrs a = Inr (map (\<lambda>x. the (ob_dict a (name x))) attrs)"
    and tb: "attrs_to_tuple attrs b = Inr (map (\<lambda>x. the (ob_dict b (name x))) attrs)"
    by (simp_all add: attrs_to_tuple_present)
  from h have m: "(map (\<lambda>x. the (ob_dict a (name x))) attrs = map (\<lambda>x. the (ob_dict b (name x))) attrs)
     = (\<forall>x \<in> set attrs. ob_dict a (name x) = ob_dict b (name x))"
    by (intro map_the_eq_iff) simp
  from h have "eq attrs a b = Inr (PyBool (map (\<lambda>x. the (ob_dict a (name x))) attrs
                                          = map (\<lambda>x. the (ob_dict b (name x))) attrs))"
    unfolding eq_def ta tb by simp
  then show e: "eq attrs a b = Inr (PyBool (\<forall>x \<in> set attrs. ob_dict a (name x) = ob_dict b (name x)))"
    unfolding m .
  show "ne attrs a b = Inr (PyBool (\<not> (\<forall>x \<in> set attrs. ob_dict a (name x) = ob_dict b (name x))))"
    by (simp add: ne_def e)
next
  show "ne attrs a b =
       (case eq attrs a b of
          Inl e \<Rightarrow> Inl e
        | Inr NotImplemented \<Rightarrow> Inr NotImplemented
        | Inr (PyBool r) \<Rightarrow> Inr (PyBool (\<not> r)))"
    by (simp add: ne_def)
qed

theorem eq_exact_type_witness:
  "eq [Attribute_of_name ''x'', Attribute_of_name ''y'']
      \<lparr>ob_type = PyType 1 ''Point'' [], ob_dict = [''x'' \<mapsto> PyInt 1, ''y'' \<mapsto> PyInt 2]\<rparr>
      \<lparr>ob_type = PyType 1 ''Point'' [], ob_dict = [''y'' \<mapsto> PyInt 2, ''x'' \<mapsto> PyInt 1]\<rparr>
     = Inr (PyBool True)
   \<and> ne [Attribute_of_name ''x'', Attribute_of_name ''y'']
      \<lparr>ob_type = PyType 1 ''Point'' [], ob_dict = [''x'' \<mapsto> PyInt 1, ''y'' \<mapsto> PyInt 2]\<rparr>
      \<lparr>ob_type = PyType 1 ''Point'' [], ob_dict = [''y'' \<mapsto> PyInt 3, ''x'' \<mapsto> PyInt 1]\<rparr>
     = Inr (PyBool True)
   \<and> eq [Attribute_of_name ''x'', Attribute_of_name ''y'']
      \<lparr>ob_type = PyType 1 ''Point'' [], ob_dict = [''x'' \<mapsto> PyInt 1, ''y'' \<mapsto> PyInt 2]\<rparr>
      \<lparr>ob_type = PyType 2 ''Point3'' [PyType 1 ''Point'' []],
       ob_dict = [''x'' \<mapsto> PyInt 1, ''y'' \<mapsto> PyInt 2]\<rparr>
     = Inr NotImplemented"
  using eq_exact_type [of
      "\<lparr>ob_type = PyType 1 ''Point'' [], ob_dict = [''y'' \<mapsto> PyInt 2, ''x'' \<mapsto> PyInt 1]\<rparr>"
      "\<lparr>ob_type = PyType 1 ''Point'' [], ob_dict = [''x'' \<mapsto> PyInt 1, ''y'' \<mapsto> PyInt 2]\<rparr>"
      "[Attribute_of_name ''x'', Attribute_of_name ''y'']"]
    eq_exact_type [of
      "\<lparr>ob_type = PyType 1 ''Point'' [], ob_dict = [''y'' \<mapsto> PyInt 3, ''x'' \<mapsto> PyInt 1]\<rparr>"
      "\<lparr>ob_type = PyType 1 ''Point'' [], ob_dict = [''x'' \<mapsto> PyInt 1, ''y'' \<mapsto> PyInt 2]\<rparr>"
      "[Attribute_of_name ''x'', Attribute_of_name ''y'']"]
    eq_exact_type [of
      "\<lparr>ob_type = PyType 2 ''Point3'' [PyType 1 ''Point'' []],
       ob_dict = [''x'' \<mapsto> PyInt 1, ''y'' \<mapsto> PyInt 2]\<rparr>"
      "\<lparr>ob_type = PyType 1 ''Point'' [], ob_dict = [''x'' \<mapsto> PyInt 1, ''y'' \<mapsto> PyInt 2]\<rparr>"
      "[Attribute_of_name ''x'', Attribute_of_name ''y'']"]
  by (simp add: Attribute_of_name_def)



text \<open>
  C7. \<open>lt attrs a b\<close> is \<^verbatim>\<open>a.__lt__(b)\<close>, and likewise \<open>le\<close>, \<open>gt\<close>, \<open>ge\<close>. For the
  attributes \<open>[ax, ay]\<close>, declared in that order, and two instances of the same
  class holding integers, each of the four operators compares the first attribute
  first and the second only on a tie. With attributes \<open>x\<close>, \<open>y\<close>: \<open>(x=1, y=2)\<close> is
  less than \<open>(x=1, y=3)\<close>, and \<open>(x=2, y=0)\<close> is not less than \<open>(x=1, y=9)\<close>. When the
  classes of the two instances differ, \<open>lt\<close>, \<open>le\<close>, \<open>gt\<close> and \<open>ge\<close> return
  \<^verbatim>\<open>NotImplemented\<close>, for any attribute list.
\<close>

theorem lt_lexicographic:
  "(ob_type b = ob_type a
      \<and> ob_dict a (name ax) = Some (PyInt x1) \<and> ob_dict a (name ay) = Some (PyInt y1)
      \<and> ob_dict b (name ax) = Some (PyInt x2) \<and> ob_dict b (name ay) = Some (PyInt y2) \<longrightarrow>
      lt [ax, ay] a b = Inr (PyBool (x1 < x2 \<or> (x1 = x2 \<and> y1 < y2)))
      \<and> le [ax, ay] a b = Inr (PyBool (x1 < x2 \<or> (x1 = x2 \<and> y1 \<le> y2)))
      \<and> gt [ax, ay] a b = Inr (PyBool (x1 > x2 \<or> (x1 = x2 \<and> y1 > y2)))
      \<and> ge [ax, ay] a b = Inr (PyBool (x1 > x2 \<or> (x1 = x2 \<and> y1 \<ge> y2))))
   \<and> lt [Attribute_of_name ''x'', Attribute_of_name ''y'']
        \<lparr>ob_type = t, ob_dict = [''x'' \<mapsto> PyInt 1, ''y'' \<mapsto> PyInt 2]\<rparr>
        \<lparr>ob_type = t, ob_dict = [''x'' \<mapsto> PyInt 1, ''y'' \<mapsto> PyInt 3]\<rparr> = Inr (PyBool True)
   \<and> lt [Attribute_of_name ''x'', Attribute_of_name ''y'']
        \<lparr>ob_type = t, ob_dict = [''x'' \<mapsto> PyInt 2, ''y'' \<mapsto> PyInt 0]\<rparr>
        \<lparr>ob_type = t, ob_dict = [''x'' \<mapsto> PyInt 1, ''y'' \<mapsto> PyInt 9]\<rparr> = Inr (PyBool False)
   \<and> (ob_type b \<noteq> ob_type a \<longrightarrow>
        lt attrs a b = Inr NotImplemented \<and> le attrs a b = Inr NotImplemented
        \<and> gt attrs a b = Inr NotImplemented \<and> ge attrs a b = Inr NotImplemented)"
  by (auto simp: lt_def le_def gt_def ge_def ordering_def getattr_obj_def Attribute_of_name_def)

theorem lt_lexicographic_witness:
  "lt [Attribute_of_name ''x'', Attribute_of_name ''y'']
        \<lparr>ob_type = PyType 1 ''Point'' [], ob_dict = [''x'' \<mapsto> PyInt 1, ''y'' \<mapsto> PyInt 2]\<rparr>
        \<lparr>ob_type = PyType 1 ''Point'' [], ob_dict = [''x'' \<mapsto> PyInt 1, ''y'' \<mapsto> PyInt 3]\<rparr>
      = Inr (PyBool True)
   \<and> le [Attribute_of_name ''x'', Attribute_of_name ''y'']
        \<lparr>ob_type = PyType 1 ''Point'' [], ob_dict = [''x'' \<mapsto> PyInt 1, ''y'' \<mapsto> PyInt 2]\<rparr>
        \<lparr>ob_type = PyType 1 ''Point'' [], ob_dict = [''x'' \<mapsto> PyInt 1, ''y'' \<mapsto> PyInt 3]\<rparr>
      = Inr (PyBool True)
   \<and> gt [Attribute_of_name ''x'', Attribute_of_name ''y'']
        \<lparr>ob_type = PyType 1 ''Point'' [], ob_dict = [''x'' \<mapsto> PyInt 1, ''y'' \<mapsto> PyInt 2]\<rparr>
        \<lparr>ob_type = PyType 1 ''Point'' [], ob_dict = [''x'' \<mapsto> PyInt 1, ''y'' \<mapsto> PyInt 3]\<rparr>
      = Inr (PyBool False)
   \<and> ge [Attribute_of_name ''x'', Attribute_of_name ''y'']
        \<lparr>ob_type = PyType 1 ''Point'' [], ob_dict = [''x'' \<mapsto> PyInt 1, ''y'' \<mapsto> PyInt 2]\<rparr>
        \<lparr>ob_type = PyType 1 ''Point'' [], ob_dict = [''x'' \<mapsto> PyInt 1, ''y'' \<mapsto> PyInt 3]\<rparr>
      = Inr (PyBool False)
   \<and> lt [Attribute_of_name ''x'', Attribute_of_name ''y'']
        \<lparr>ob_type = PyType 1 ''Point'' [], ob_dict = [''x'' \<mapsto> PyInt 2, ''y'' \<mapsto> PyInt 0]\<rparr>
        \<lparr>ob_type = PyType 1 ''Point'' [], ob_dict = [''x'' \<mapsto> PyInt 1, ''y'' \<mapsto> PyInt 9]\<rparr>
      = Inr (PyBool False)
   \<and> ge [Attribute_of_name ''x'', Attribute_of_name ''y'']
        \<lparr>ob_type = PyType 1 ''Point'' [], ob_dict = [''x'' \<mapsto> PyInt 2, ''y'' \<mapsto> PyInt 0]\<rparr>
        \<lparr>ob_type = PyType 1 ''Point'' [], ob_dict = [''x'' \<mapsto> PyInt 1, ''y'' \<mapsto> PyInt 9]\<rparr>
      = Inr (PyBool True)
   \<and> lt [Attribute_of_name ''x'', Attribute_of_name ''y'']
        \<lparr>ob_type = PyType 1 ''Point'' [], ob_dict = [''x'' \<mapsto> PyInt 1, ''y'' \<mapsto> PyInt 2]\<rparr>
        \<lparr>ob_type = PyType 2 ''Other'' [], ob_dict = [''x'' \<mapsto> PyInt 1, ''y'' \<mapsto> PyInt 3]\<rparr>
      = Inr NotImplemented
   \<and> ge [Attribute_of_name ''x'', Attribute_of_name ''y'']
        \<lparr>ob_type = PyType 1 ''Point'' [], ob_dict = [''x'' \<mapsto> PyInt 1, ''y'' \<mapsto> PyInt 2]\<rparr>
        \<lparr>ob_type = PyType 2 ''Other'' [], ob_dict = [''x'' \<mapsto> PyInt 1, ''y'' \<mapsto> PyInt 3]\<rparr>
      = Inr NotImplemented"
  using lt_lexicographic [where
      b = "\<lparr>ob_type = PyType 1 ''Point'' [], ob_dict = [''x'' \<mapsto> PyInt 1, ''y'' \<mapsto> PyInt 3]\<rparr>"
      and a = "\<lparr>ob_type = PyType 1 ''Point'' [], ob_dict = [''x'' \<mapsto> PyInt 1, ''y'' \<mapsto> PyInt 2]\<rparr>"
      and ax = "Attribute_of_name ''x''" and ay = "Attribute_of_name ''y''"
      and ?x1.0 = 1 and ?y1.0 = 2 and ?x2.0 = 1 and ?y2.0 = 3
      and t = "PyType 1 ''Point'' []" and attrs = "[]"]
    lt_lexicographic [where
      b = "\<lparr>ob_type = PyType 1 ''Point'' [], ob_dict = [''x'' \<mapsto> PyInt 1, ''y'' \<mapsto> PyInt 9]\<rparr>"
      and a = "\<lparr>ob_type = PyType 1 ''Point'' [], ob_dict = [''x'' \<mapsto> PyInt 2, ''y'' \<mapsto> PyInt 0]\<rparr>"
      and ax = "Attribute_of_name ''x''" and ay = "Attribute_of_name ''y''"
      and ?x1.0 = 2 and ?y1.0 = 0 and ?x2.0 = 1 and ?y2.0 = 9
      and t = "PyType 1 ''Point'' []" and attrs = "[]"]
    lt_lexicographic [where
      b = "\<lparr>ob_type = PyType 2 ''Other'' [], ob_dict = [''x'' \<mapsto> PyInt 1, ''y'' \<mapsto> PyInt 3]\<rparr>"
      and a = "\<lparr>ob_type = PyType 1 ''Point'' [], ob_dict = [''x'' \<mapsto> PyInt 1, ''y'' \<mapsto> PyInt 2]\<rparr>"
      and ax = "Attribute_of_name ''x''" and ay = "Attribute_of_name ''y''"
      and ?x1.0 = 1 and ?y1.0 = 2 and ?x2.0 = 1 and ?y2.0 = 3
      and t = "PyType 1 ''Point'' []"
      and attrs = "[Attribute_of_name ''x'', Attribute_of_name ''y'']"]
  by (simp add: Attribute_of_name_def)

section \<open>Properties of the immutability sentry\<close>

lemma class_set_simps:
  "cl_dict (class_set cl nm m) = (cl_dict cl)(nm \<mapsto> m)"
  "cl_type (class_set cl nm m) = cl_type cl"
  by (simp_all add: class_set_def)

lemma cl_keys_class_set:
  "cl_keys (class_set cl nm m) = (if nm \<in> set (cl_keys cl) then cl_keys cl else cl_keys cl @ [nm])"
  by (simp add: class_set_def)

lemmas composer_defs =
  attributes_def with_cmp_def with_repr_def immutable_def with_init_def with_init_attrs_def
  with_cmp_wrap_def with_repr_wrap_def immutable_wrap_def with_init_wrap_def
  class_set_simps class_setattr_def class_init_def class_getattr_def
  ensure_attributes_def Attribute_of_name_def dict_get_def Let_def

lemma class_setattr_immutable:
  "class_setattr (immutable attrs cl) =
     Fn_characteristic_immutability_sentry (set (map name (ensure_attributes attrs)))"
  by (simp add: immutable_def immutable_wrap_def class_set_simps class_setattr_def class_getattr_def Let_def)

lemma original_setattr_immutable:
  "cl_dict (immutable attrs cl) ''__original_setattr__'' = Some (class_setattr cl)"
  by (simp add: immutable_def immutable_wrap_def class_set_simps Let_def)

text \<open>
  C10. The sentry passes a write on to the original \<^verbatim>\<open>__setattr__\<close> whenever the
  code object of the calling frame is named \<^verbatim>\<open>characteristic_init\<close> or \<^verbatim>\<open>__init__\<close>,
  whatever its file, its line and the class it belongs to, and whether or not the
  field is protected. On a class whose own \<^verbatim>\<open>__setattr__\<close> is that of \<^verbatim>\<open>object\<close>, made
  immutable, such a write stores the value and does not raise.
\<close>

theorem sentry_permits_init_names:
  "(co_name (f_code fr) = ''characteristic_init'' \<or> co_name (f_code fr) = ''__init__'' \<longrightarrow>
      characteristic_immutability_sentry names original_setattr (Some fr) obj attr v
        = original_setattr obj attr v)
   \<and> ((co_name (f_code fr) = ''characteristic_init'' \<or> co_name (f_code fr) = ''__init__'')
        \<and> class_setattr cl = Object_setattr \<longrightarrow>
      setattr_stmt (Suc (Suc n)) (immutable attrs cl) fr obj attr v
        = Inr (obj\<lparr>ob_dict := (ob_dict obj)(attr \<mapsto> v)\<rparr>))"
  by (auto simp: setattr_stmt_def class_setattr_immutable original_setattr_immutable
        characteristic_immutability_sentry_def VALID_INITS_def)

theorem sentry_permits_init_names_witness:
  "setattr_stmt 2 (immutable [Name ''x''] Point) foreign_init_frame
      \<lparr>ob_type = cl_type Point, ob_dict = [''x'' \<mapsto> PyInt 1]\<rparr> ''x'' (PyInt 5)
    = Inr \<lparr>ob_type = cl_type Point, ob_dict = [''x'' \<mapsto> PyInt 5]\<rparr>"
proof -
  have 1: "co_name (f_code foreign_init_frame) = ''__init__''"
    by (simp add: foreign_init_frame_def)
  have 2: "class_setattr Point = Object_setattr"
    by (simp add: Point_def class_setattr_def class_getattr_def)
  from 1 2 sentry_permits_init_names [where fr = foreign_init_frame and cl = Point and n = 0
      and attrs = "[Name ''x'']" and attr = "''x''" and v = "PyInt 5"
      and obj = "\<lparr>ob_type = cl_type Point, ob_dict = [''x'' \<mapsto> PyInt 1]\<rparr>"]
  show ?thesis by (simp add: numeral_2_eq_2)
qed

text \<open>
  C1, as amended. On a class made immutable, assigning a declared attribute from a
  frame whose code object is named neither \<^verbatim>\<open>characteristic_init\<close> nor \<^verbatim>\<open>__init__\<close>,
  or with no calling frame at all, raises the \<open>TypeError\<close> whose message names the
  field and the class. Assigning a field that is not declared stores the value,
  from any frame (the class's own \<^verbatim>\<open>__setattr__\<close> being that of \<^verbatim>\<open>object\<close>).
\<close>

theorem sentry_guard:
  "(attr \<in> set (map name (ensure_attributes attrs)) \<and> co_name (f_code fr) \<notin> VALID_INITS \<longrightarrow>
      setattr_stmt (Suc n) (immutable attrs cl) fr obj attr v =
        Inl (TypeError (''Attribute '' @ quoted attr @ '' of class ''
                          @ quoted (tp_name (ob_type obj)) @ '' is immutable.'')))
   \<and> (attr \<in> set (map name (ensure_attributes attrs)) \<longrightarrow>
      call_setattr (Suc n) (immutable attrs cl) (class_setattr (immutable attrs cl)) None obj attr v =
        Inl (TypeError (''Attribute '' @ quoted attr @ '' of class ''
                          @ quoted (tp_name (ob_type obj)) @ '' is immutable.'')))
   \<and> (attr \<notin> set (map name (ensure_attributes attrs)) \<and> class_setattr cl = Object_setattr \<longrightarrow>
      setattr_stmt (Suc (Suc n)) (immutable attrs cl) fr obj attr v =
        Inr (obj\<lparr>ob_dict := (ob_dict obj)(attr \<mapsto> v)\<rparr>))"
  by (auto simp: setattr_stmt_def class_setattr_immutable original_setattr_immutable
        characteristic_immutability_sentry_def)

theorem sentry_guard_witness:
  "setattr_stmt 2 (immutable [Name ''x''] Point) module_frame
      \<lparr>ob_type = cl_type Point, ob_dict = [''x'' \<mapsto> PyInt 1]\<rparr> ''x'' (PyInt 5)
    = Inl (TypeError ''Attribute 'x' of class 'Point' is immutable.'')
   \<and> setattr_stmt 2 (immutable [Name ''x''] Point) module_frame
      \<lparr>ob_type = cl_type Point, ob_dict = [''x'' \<mapsto> PyInt 1]\<rparr> ''z'' (PyInt 5)
    = Inr \<lparr>ob_type = cl_type Point, ob_dict = [''x'' \<mapsto> PyInt 1, ''z'' \<mapsto> PyInt 5]\<rparr>"
proof -
  have 1: "''x'' \<in> set (map name (ensure_attributes [Name ''x'']))"
    "''z'' \<notin> set (map name (ensure_attributes [Name ''x'']))"
    by (simp_all add: ensure_attributes_def Attribute_of_name_def)
  have 2: "co_name (f_code module_frame) \<notin> VALID_INITS"
    by (simp add: module_frame_def VALID_INITS_def)
  have 3: "class_setattr Point = Object_setattr"
    by (simp add: Point_def class_setattr_def class_getattr_def)
  have 4: "tp_name (cl_type Point) = ''Point''" by (simp add: Point_def)
  from 1 2 3 4
     sentry_guard [where attr = "''x''" and attrs = "[Name ''x'']" and fr = module_frame
       and n = 1 and cl = Point and v = "PyInt 5"
       and obj = "\<lparr>ob_type = cl_type Point, ob_dict = [''x'' \<mapsto> PyInt 1]\<rparr>"]
     sentry_guard [where attr = "''z''" and attrs = "[Name ''x'']" and fr = module_frame
       and n = 0 and cl = Point and v = "PyInt 5"
       and obj = "\<lparr>ob_type = cl_type Point, ob_dict = [''x'' \<mapsto> PyInt 1]\<rparr>"]
  show ?thesis by (simp add: numeral_2_eq_2 quoted_def)
qed

text \<open>
  C1 as stated fails: after an instance of the composed class \<open>Point\<close> has been
  constructed, the \<^verbatim>\<open>__init__\<close> method of another class, which is not the
  constructor of \<open>Point\<close>, assigns the declared attribute \<open>x\<close> and the write succeeds.
\<close>

theorem sentry_foreign_init_counterexample:
  "construct 3 (snd (attributes [Name ''x''] None True True Point)) [] [(''x'', PyInt 1)]
     = Inr \<lparr>ob_type = cl_type Point, ob_dict = [''x'' \<mapsto> PyInt 1]\<rparr>
   \<and> setattr_stmt 2 (snd (attributes [Name ''x''] None True True Point)) foreign_init_frame
        \<lparr>ob_type = cl_type Point, ob_dict = [''x'' \<mapsto> PyInt 1]\<rparr> ''x'' (PyInt 5)
     = Inr \<lparr>ob_type = cl_type Point, ob_dict = [''x'' \<mapsto> PyInt 5]\<rparr>"
  by (simp add: composer_defs construct_def setattr_stmt_def Point_def foreign_init_frame_def
        numeral_nat characteristic_init_def kw_pop_def get_default_def
        characteristic_immutability_sentry_def VALID_INITS_def)

section \<open>Properties of the synthesized initializer\<close>

lemma map_of_filter_other:
  "map_of (filter (\<lambda>kv. fst kv \<noteq> k) kw) k' = (if k' = k then None else map_of kw k')"
  by (induction kw) auto

lemma kw_pop_snd:
  "map_of (snd (kw_pop kw k d)) k' = (if k' = k then None else map_of kw k')"
  by (auto simp: kw_pop_def map_of_filter_other split: option.splits)

lemma loop_missing_fails:
  "map_of kw nm = None \<Longrightarrow>
   \<exists>e. characteristic_init_loop sa (pre @ Attribute_of_name nm # post) self kw = Inl e"
proof (induction pre arbitrary: self kw)
  case Nil
  then show ?case
    by (simp add: kw_pop_def get_default_def Attribute_of_name_def)
next
  case (Cons b pre)
  obtain v kw' where p: "kw_pop kw (name b) NOTHING = (v, kw')" by (cases "kw_pop kw (name b) NOTHING")
  have "map_of kw' nm = None" using kw_pop_snd [of kw "name b" NOTHING nm] p Cons.prems by simp
  then have ih: "\<And>s. \<exists>e. characteristic_init_loop sa (pre @ Attribute_of_name nm # post) s kw' = Inl e"
    using Cons.IH by blast
  show ?case using ih
    by (auto simp: p split: sum.splits)
qed

lemma loop_missing_names:
  assumes "\<And>s k v. \<exists>s'. sa s k v = Inr s'"
    and "distinct (map name pre)"
    and "\<forall>b \<in> set pre. \<exists>v. v \<noteq> NOTHING \<and>
           (map_of kw (name b) = Some v
            \<or> (map_of kw (name b) = None \<or> map_of kw (name b) = Some NOTHING) \<and> get_default b = Inr v)"
    and "map_of kw nm = None"
  shows "characteristic_init_loop sa (pre @ Attribute_of_name nm # post) self kw
           = Inl (ValueError (''Missing keyword value for '' @ quoted nm @ ''.''))"
  using assms(2-4)
proof (induction pre arbitrary: self kw)
  case Nil
  then show ?case
    by (simp add: kw_pop_def get_default_def Attribute_of_name_def)
next
  case (Cons b pre)
  obtain v kw' where p: "kw_pop kw (name b) NOTHING = (v, kw')" by (cases "kw_pop kw (name b) NOTHING")
  have kw': "\<And>k. map_of kw' k = (if k = name b then None else map_of kw k)"
    using kw_pop_snd [of kw "name b" NOTHING] p by simp
  have 1: "map_of kw' nm = None" using Cons.prems(3) by (simp add: kw')
  have 2: "distinct (map name pre)" using Cons.prems(1) by simp
  have 3: "\<forall>c \<in> set pre. \<exists>v. v \<noteq> NOTHING \<and>
           (map_of kw' (name c) = Some v
            \<or> (map_of kw' (name c) = None \<or> map_of kw' (name c) = Some NOTHING) \<and> get_default c = Inr v)"
  proof
    fix c assume c: "c \<in> set pre"
    then have "name c \<in> name ` set pre" by (rule imageI)
    then have "name c \<noteq> name b" using Cons.prems(1) by auto
    then show "\<exists>v. v \<noteq> NOTHING \<and>
           (map_of kw' (name c) = Some v
            \<or> (map_of kw' (name c) = None \<or> map_of kw' (name c) = Some NOTHING) \<and> get_default c = Inr v)"
      using Cons.prems(2) c by (simp add: kw')
  qed
  have ih: "\<And>s. characteristic_init_loop sa (pre @ Attribute_of_name nm # post) s kw'
           = Inl (ValueError (''Missing keyword value for '' @ quoted nm @ ''.''))"
    using Cons.IH [OF 2 3 1] .
  from Cons.prems(2) obtain w where w: "w \<noteq> NOTHING"
      "map_of kw (name b) = Some w
         \<or> (map_of kw (name b) = None \<or> map_of kw (name b) = Some NOTHING) \<and> get_default b = Inr w"
    by auto
  have v: "v = (case map_of kw (name b) of None \<Rightarrow> NOTHING | Some x \<Rightarrow> x)"
    using p by (auto simp: kw_pop_def split: option.splits)
  from w have vw: "(if v = NOTHING then get_default b else Inr v) = Inr w"
    by (auto simp: v)
  obtain s' where s': "sa self (name b) w = Inr s'" using assms(1) by blast
  show ?case
    by (simp add: p vw w(1) s' ih)
qed

lemma class_init_with_init_wrap:
  "class_init (with_init_wrap attrs cl) = Fn_characteristic_init attrs"
  by (simp add: with_init_wrap_def class_set_simps class_init_def class_getattr_def Let_def)

lemma characteristic_setattr_with_init_wrap:
  "cl_dict (with_init_wrap attrs cl) ''__characteristic_setattr__''
     = Some (class_getattr cl ''__original_setattr__'' (class_setattr cl))"
  by (simp add: with_init_wrap_def class_set_simps class_setattr_def class_getattr_def Let_def
        split: option.splits)

text \<open>
  C2, as amended. Let an attribute with no default value and no default factory be
  declared (here \<open>Attribute_of_name nm\<close>, anywhere in the list), and let the keyword
  arguments not supply it. Then constructing an instance fails, whatever else is
  passed. When moreover every attribute declared before it is supplied or has a
  default (the earlier names being distinct, and the write primitive of the
  initializer being \<^verbatim>\<open>object.__setattr__\<close>), the failure is the \<open>ValueError\<close> with
  the message \<^verbatim>\<open>Missing keyword value for '<name>'.\<close>, which names that attribute; the
  message is built from the attribute name alone and does not name the class.
\<close>

theorem missing_required_attribute:
  "(map_of kw nm = None \<longrightarrow>
      (\<exists>e. construct k (with_init_wrap (pre @ Attribute_of_name nm # post) cl) args kw = Inl e))
   \<and> (map_of kw nm = None
        \<and> class_getattr cl ''__original_setattr__'' (class_setattr cl) = Object_setattr
        \<and> distinct (map name pre)
        \<and> (\<forall>b \<in> set pre. \<exists>v. v \<noteq> NOTHING \<and>
              (map_of kw (name b) = Some v
               \<or> (map_of kw (name b) = None \<or> map_of kw (name b) = Some NOTHING)
                   \<and> get_default b = Inr v)) \<longrightarrow>
      construct (Suc (Suc n)) (with_init_wrap (pre @ Attribute_of_name nm # post) cl) args kw
        = Inl (ValueError (''Missing keyword value for '' @ quoted nm @ ''.'')))"
proof (intro conjI impI)
  assume m: "map_of kw nm = None"
  show "\<exists>e. construct k (with_init_wrap (pre @ Attribute_of_name nm # post) cl) args kw = Inl e"
  proof (cases k)
    case 0
    then show ?thesis by (simp add: construct_def)
  next
    case (Suc j)
    obtain e where
      "characteristic_init_loop
         (\<lambda>self attr v.
            case cl_dict (with_init_wrap (pre @ Attribute_of_name nm # post) cl)
                   ''__characteristic_setattr__'' of
              None \<Rightarrow> Inl AttributeError
            | Some m \<Rightarrow>
                call_setattr j (with_init_wrap (pre @ Attribute_of_name nm # post) cl) m
                  (Some \<lparr>f_code = characteristic_init_code, f_lineno = 279\<rparr>) self attr v)
         (pre @ Attribute_of_name nm # post)
         \<lparr>ob_type = cl_type (with_init_wrap (pre @ Attribute_of_name nm # post) cl),
          ob_dict = Map.empty\<rparr> kw = Inl e"
      using loop_missing_fails [OF m] by blast
    then show ?thesis
      by (simp add: construct_def Suc class_init_with_init_wrap characteristic_init_def)
  qed
next
  assume h: "map_of kw nm = None
        \<and> class_getattr cl ''__original_setattr__'' (class_setattr cl) = Object_setattr
        \<and> distinct (map name pre)
        \<and> (\<forall>b \<in> set pre. \<exists>v. v \<noteq> NOTHING \<and>
              (map_of kw (name b) = Some v
               \<or> (map_of kw (name b) = None \<or> map_of kw (name b) = Some NOTHING)
                   \<and> get_default b = Inr v))"
  let ?cl = "with_init_wrap (pre @ Attribute_of_name nm # post) cl"
  let ?sa = "\<lambda>self attr v.
            case cl_dict ?cl ''__characteristic_setattr__'' of
              None \<Rightarrow> Inl AttributeError
            | Some m \<Rightarrow>
                call_setattr (Suc n) ?cl m
                  (Some \<lparr>f_code = characteristic_init_code, f_lineno = 279\<rparr>) self attr v"
  have sa: "\<And>s k v. \<exists>s'. ?sa s k v = Inr s'"
    using h by (simp add: characteristic_setattr_with_init_wrap)
  have "characteristic_init_loop ?sa (pre @ Attribute_of_name nm # post)
          \<lparr>ob_type = cl_type ?cl, ob_dict = Map.empty\<rparr> kw
        = Inl (ValueError (''Missing keyword value for '' @ quoted nm @ ''.''))"
    using h by (intro loop_missing_names [OF sa]) simp_all
  then show "construct (Suc (Suc n)) ?cl args kw
        = Inl (ValueError (''Missing keyword value for '' @ quoted nm @ ''.''))"
    by (simp add: construct_def class_init_with_init_wrap characteristic_init_def)
qed

lemmas run_defs =
  construct_def setattr_stmt_def characteristic_init_def kw_pop_def get_default_def
  Attribute_getattr_def characteristic_immutability_sentry_def VALID_INITS_def quoted_def
  numeral_nat

theorem missing_required_attribute_witness:
  "construct 2 (with_init_wrap [Attribute_of_name ''x'', Attribute_of_name ''id''] Point) []
      [(''x'', PyInt 1)]
     = Inl (ValueError ''Missing keyword value for 'id'.'')"
proof -
  have 1: "map_of [(''x'', PyInt 1)] ''id'' = None" by simp
  have 2: "class_getattr Point ''__original_setattr__'' (class_setattr Point) = Object_setattr"
    by (simp add: Point_def class_getattr_def class_setattr_def)
  have 3: "distinct (map name [Attribute_of_name ''x''])" by simp
  have 4: "\<forall>b \<in> set [Attribute_of_name ''x'']. \<exists>v. v \<noteq> NOTHING \<and>
              (map_of [(''x'', PyInt 1)] (name b) = Some v
               \<or> (map_of [(''x'', PyInt 1)] (name b) = None
                   \<or> map_of [(''x'', PyInt 1)] (name b) = Some NOTHING)
                   \<and> get_default b = Inr v)"
    by (simp add: Attribute_of_name_def)
  from 1 2 3 4
    missing_required_attribute [where kw = "[(''x'', PyInt 1)]" and nm = "''id''" and cl = Point
      and pre = "[Attribute_of_name ''x'']" and post = "[]" and n = 0 and args = "[]"]
  show ?thesis by (simp add: numeral_2_eq_2 quoted_def)
qed

text \<open>
  C2 as stated fails. For the class \<open>Point\<close> with the required attribute \<open>id\<close>, the
  error raised when \<open>id\<close> is omitted does not mention \<open>Point\<close>. And with two required
  attributes \<open>first\<close> and \<open>second\<close>, both omitted, the error names \<open>first\<close> only: for
  the attribute \<open>second\<close> no error naming it is raised.
\<close>

theorem missing_required_attribute_counterexample:
  "construct 3 (snd (attributes [Name ''id''] None True True Point)) [] []
     = Inl (ValueError ''Missing keyword value for 'id'.'')
   \<and> \<not> mentions ''Missing keyword value for 'id'.'' (tp_name (cl_type Point))
   \<and> construct 3 (snd (attributes [Name ''first'', Name ''second''] None True True Point)) [] []
     = Inl (ValueError ''Missing keyword value for 'first'.'')
   \<and> \<not> mentions ''Missing keyword value for 'first'.'' ''second''"
  by (simp add: composer_defs run_defs Point_def)

text \<open>
  C9 does not hold of the code. With the legacy mapping \<^verbatim>\<open>defaults={"x": 0}\<close> (or
  \<^verbatim>\<open>{"x": ""}\<close>) the loop of \<^verbatim>\<open>with_init\<close> tests the truth value of the mapped default
  and builds an attribute without default, so that constructing an instance
  without \<open>x\<close> raises instead of using the default; a truthy default is used.
\<close>

theorem legacy_falsy_default_dropped:
  "with_init_attrs [Name ''x''] (Some [(''x'', PyInt 0)]) = Inr [Attribute_of_name ''x'']
   \<and> construct 3 (snd (attributes [Name ''x''] (Some [(''x'', PyInt 0)]) True True Point)) [] []
     = Inl (ValueError ''Missing keyword value for 'x'.'')
   \<and> construct 3 (snd (attributes [Name ''x''] (Some [(''x'', PyStr [])]) True True Point)) [] []
     = Inl (ValueError ''Missing keyword value for 'x'.'')
   \<and> construct 3 (snd (attributes [Name ''x''] (Some [(''x'', PyInt 5)]) True True Point)) [] []
     = Inr \<lparr>ob_type = cl_type Point, ob_dict = [''x'' \<mapsto> PyInt 5]\<rparr>"
  by (simp add: composer_defs run_defs Point_def Attribute_init_def)

section \<open>Properties of the composer\<close>

lemma class_setattr_cmp_repr:
  "class_setattr (with_cmp attrs (with_repr attrs cl)) = class_setattr cl"
  by (simp add: with_cmp_def with_repr_def with_cmp_wrap_def with_repr_wrap_def class_set_simps
        class_setattr_def class_getattr_def Let_def)

lemma class_init_cmp_repr:
  "class_init (with_cmp attrs (with_repr attrs cl)) = class_init cl"
  by (simp add: with_cmp_def with_repr_def with_cmp_wrap_def with_repr_wrap_def class_set_simps
        class_init_def class_getattr_def Let_def)

lemma original_setattr_cmp_repr:
  "cl_dict (with_cmp attrs (with_repr attrs cl)) ''__original_setattr__''
     = cl_dict cl ''__original_setattr__''"
  by (simp add: with_cmp_def with_repr_def with_cmp_wrap_def with_repr_wrap_def class_set_simps
        Let_def)

lemma class_init_immutable: "class_init (immutable attrs cl) = class_init cl"
  by (simp add: immutable_def immutable_wrap_def class_set_simps class_init_def class_getattr_def
        Let_def)

lemma with_init_wrap_slots:
  "cl_dict (with_init_wrap new_attrs cl) ''__characteristic_setattr__''
     = Some (class_getattr cl ''__original_setattr__'' (class_setattr cl))"
  "cl_dict (with_init_wrap new_attrs cl) ''__original_init__'' = Some (class_init cl)"
  "cl_dict (with_init_wrap new_attrs cl) ''__original_setattr__''
     = cl_dict cl ''__original_setattr__''"
  "class_setattr (with_init_wrap new_attrs cl) = class_setattr cl"
  "class_init (with_init_wrap new_attrs cl) = Fn_characteristic_init new_attrs"
  by (simp_all add: with_init_wrap_def class_set_simps class_setattr_def class_init_def
        class_getattr_def Let_def split: option.splits)

lemma attributes_ok:
  "(create_init \<longrightarrow> with_init_attrs attrs defaults = Inr new_attrs) \<Longrightarrow>
     attributes attrs defaults create_init make_immutable cl =
       (None, (if create_init then with_init_wrap new_attrs else id)
                ((if make_immutable then immutable attrs else id)
                   (with_cmp attrs (with_repr attrs cl))))"
  by (auto simp: attributes_def with_init_def Let_def)

lemma cl_keys_cmp_repr:
  "cl_keys cl = [] \<Longrightarrow>
     cl_keys (with_cmp attrs (with_repr attrs cl)) =
       [''__repr__'', ''__eq__'', ''__ne__'', ''__lt__'', ''__le__'', ''__gt__'', ''__ge__'',
        ''__hash__'']"
  by (simp add: with_cmp_def with_repr_def with_cmp_wrap_def with_repr_wrap_def
        cl_keys_class_set Let_def)

lemma cl_keys_repr_cmp:
  "cl_keys cl = [] \<Longrightarrow>
     cl_keys (with_repr attrs (with_cmp attrs cl)) =
       [''__eq__'', ''__ne__'', ''__lt__'', ''__le__'', ''__gt__'', ''__ge__'', ''__hash__'',
        ''__repr__'']"
  by (simp add: with_cmp_def with_repr_def with_cmp_wrap_def with_repr_wrap_def
        cl_keys_class_set Let_def)

lemma cl_keys_immutable:
  "cl_keys (immutable attrs cl) =
     (let ks = (if ''__original_setattr__'' \<in> set (cl_keys cl) then cl_keys cl
                else cl_keys cl @ [''__original_setattr__''])
      in if ''__setattr__'' \<in> set ks then ks else ks @ [''__setattr__''])"
  by (simp add: immutable_def immutable_wrap_def cl_keys_class_set Let_def)

lemma cl_keys_with_init_wrap:
  "cl_keys (with_init_wrap new_attrs cl) =
     (let ks = (if ''__original_init__'' \<in> set (cl_keys cl) then cl_keys cl
                else cl_keys cl @ [''__original_init__'']);
          ks = (if ''__init__'' \<in> set ks then ks else ks @ [''__init__''])
      in if ''__characteristic_setattr__'' \<in> set ks then ks
         else ks @ [''__characteristic_setattr__''])"
  by (simp add: with_init_wrap_def cl_keys_class_set Let_def)

text \<open>
  C5, as amended. Whenever the composer does not raise, the class it returns is
  the one obtained by applying, in this order, the wrapper of \<^verbatim>\<open>with_repr\<close>, the
  wrapper of \<^verbatim>\<open>with_cmp\<close>, then (if \<open>make_immutable\<close>) the sentry, then (if
  \<open>create_init\<close>) the initializer: on a class with an empty namespace the names are
  assigned in the order \<^verbatim>\<open>__repr__\<close>, the seven comparison names, the two names of
  the sentry, the three names of the initializer. With the sentry installed,
  \<^verbatim>\<open>__original_setattr__\<close> holds the \<^verbatim>\<open>__setattr__\<close> the class had before,
  \<^verbatim>\<open>__setattr__\<close> is the sentry, and the initializer's \<^verbatim>\<open>__characteristic_setattr__\<close> is
  that earlier \<^verbatim>\<open>__setattr__\<close>: a call of the initializer writes every attribute
  with it and never enters the sentry. Without the sentry, on a class that has no
  \<^verbatim>\<open>__original_setattr__\<close>, \<^verbatim>\<open>__characteristic_setattr__\<close> is the ordinary
  \<^verbatim>\<open>__setattr__\<close> of the class.
\<close>

theorem attributes_order_and_binding:
  "((create_init \<longrightarrow> with_init_attrs attrs defaults = Inr new_attrs) \<longrightarrow>
      attributes attrs defaults create_init make_immutable cl =
        (None, (if create_init then with_init_wrap new_attrs else id)
                 ((if make_immutable then immutable attrs else id)
                    (with_cmp attrs (with_repr attrs cl)))))
   \<and> (with_init_attrs attrs defaults = Inr new_attrs \<and> cl_keys cl = [] \<longrightarrow>
        cl_keys (snd (attributes attrs defaults True True cl)) =
          [''__repr__'', ''__eq__'', ''__ne__'', ''__lt__'', ''__le__'', ''__gt__'', ''__ge__'',
           ''__hash__'', ''__original_setattr__'', ''__setattr__'', ''__original_init__'',
           ''__init__'', ''__characteristic_setattr__''])
   \<and> (with_init_attrs attrs defaults = Inr new_attrs \<longrightarrow>
        cl_dict (snd (attributes attrs defaults True True cl)) ''__original_setattr__''
          = Some (class_setattr cl)
        \<and> class_setattr (snd (attributes attrs defaults True True cl))
          = Fn_characteristic_immutability_sentry (set (map name (ensure_attributes attrs)))
        \<and> cl_dict (snd (attributes attrs defaults True True cl)) ''__characteristic_setattr__''
          = Some (class_setattr cl)
        \<and> call_init (Suc n) (snd (attributes attrs defaults True True cl))
            (class_init (snd (attributes attrs defaults True True cl))) self args kw
          = characteristic_init
              (call_setattr n (snd (attributes attrs defaults True True cl)) (class_setattr cl)
                 (Some \<lparr>f_code = characteristic_init_code, f_lineno = 279\<rparr>))
              (call_init n (snd (attributes attrs defaults True True cl)) (class_init cl))
              new_attrs self args kw)
   \<and> (with_init_attrs attrs defaults = Inr new_attrs \<and> cl_dict cl ''__original_setattr__'' = None \<longrightarrow>
        class_setattr (snd (attributes attrs defaults True False cl)) = class_setattr cl
        \<and> cl_dict (snd (attributes attrs defaults True False cl)) ''__characteristic_setattr__''
          = Some (class_setattr cl))"
proof (intro conjI impI)
  assume "create_init \<longrightarrow> with_init_attrs attrs defaults = Inr new_attrs"
  then show "attributes attrs defaults create_init make_immutable cl =
        (None, (if create_init then with_init_wrap new_attrs else id)
                 ((if make_immutable then immutable attrs else id)
                    (with_cmp attrs (with_repr attrs cl))))"
    by (rule attributes_ok)
next
  assume h: "with_init_attrs attrs defaults = Inr new_attrs \<and> cl_keys cl = []"
  let ?cl = "snd (attributes attrs defaults True True cl)"
  have c: "?cl = with_init_wrap new_attrs (immutable attrs (with_cmp attrs (with_repr attrs cl)))"
    using h by (simp add: attributes_ok)
  have k: "cl_keys (with_cmp attrs (with_repr attrs cl)) =
       [''__repr__'', ''__eq__'', ''__ne__'', ''__lt__'', ''__le__'', ''__gt__'', ''__ge__'',
        ''__hash__'']"
    using h by (simp add: cl_keys_cmp_repr)
  show "cl_keys ?cl =
          [''__repr__'', ''__eq__'', ''__ne__'', ''__lt__'', ''__le__'', ''__gt__'', ''__ge__'',
           ''__hash__'', ''__original_setattr__'', ''__setattr__'', ''__original_init__'',
           ''__init__'', ''__characteristic_setattr__'']"
    by (simp add: c cl_keys_with_init_wrap cl_keys_immutable k Let_def)
next
  assume h: "with_init_attrs attrs defaults = Inr new_attrs"
  let ?cl = "snd (attributes attrs defaults True True cl)"
  have c: "?cl = with_init_wrap new_attrs (immutable attrs (with_cmp attrs (with_repr attrs cl)))"
    using h by (simp add: attributes_ok)
  show o: "cl_dict ?cl ''__original_setattr__'' = Some (class_setattr cl)"
    by (simp add: c with_init_wrap_slots original_setattr_immutable class_setattr_cmp_repr)
  show "class_setattr ?cl
          = Fn_characteristic_immutability_sentry (set (map name (ensure_attributes attrs)))"
    by (simp add: c with_init_wrap_slots class_setattr_immutable)
  show s: "cl_dict ?cl ''__characteristic_setattr__'' = Some (class_setattr cl)"
    by (simp add: c with_init_wrap_slots original_setattr_immutable class_setattr_cmp_repr
          class_getattr_def)
  have i: "cl_dict ?cl ''__original_init__'' = Some (class_init cl)"
    by (simp add: c with_init_wrap_slots class_init_immutable class_init_cmp_repr)
  have ci: "class_init ?cl = Fn_characteristic_init new_attrs"
    by (simp add: c with_init_wrap_slots)
  show "call_init (Suc n) ?cl (class_init ?cl) self args kw
          = characteristic_init
              (call_setattr n ?cl (class_setattr cl)
                 (Some \<lparr>f_code = characteristic_init_code, f_lineno = 279\<rparr>))
              (call_init n ?cl (class_init cl))
              new_attrs self args kw"
    by (simp add: ci s i)
next
  assume h: "with_init_attrs attrs defaults = Inr new_attrs \<and> cl_dict cl ''__original_setattr__'' = None"
  let ?cl = "snd (attributes attrs defaults True False cl)"
  have c: "?cl = with_init_wrap new_attrs (with_cmp attrs (with_repr attrs cl))"
    using h by (simp add: attributes_ok)
  show "class_setattr ?cl = class_setattr cl"
    by (simp add: c with_init_wrap_slots class_setattr_cmp_repr)
  show "cl_dict ?cl ''__characteristic_setattr__'' = Some (class_setattr cl)"
    using h by (simp add: c with_init_wrap_slots original_setattr_cmp_repr class_setattr_cmp_repr
          class_getattr_def)
qed

theorem attributes_order_and_binding_witness:
  "attributes [Name ''x''] None True True Point =
     (None, with_init_wrap [Attribute_of_name ''x'']
              (immutable [Name ''x''] (with_cmp [Name ''x''] (with_repr [Name ''x''] Point))))
   \<and> cl_keys (snd (attributes [Name ''x''] None True True Point)) =
       [''__repr__'', ''__eq__'', ''__ne__'', ''__lt__'', ''__le__'', ''__gt__'', ''__ge__'',
        ''__hash__'', ''__original_setattr__'', ''__setattr__'', ''__original_init__'',
        ''__init__'', ''__characteristic_setattr__'']
   \<and> cl_dict (snd (attributes [Name ''x''] None True True Point)) ''__characteristic_setattr__''
       = Some Object_setattr
   \<and> class_setattr (snd (attributes [Name ''x''] None True True Point))
       = Fn_characteristic_immutability_sentry {''x''}
   \<and> cl_dict (snd (attributes [Name ''x''] None True False Point)) ''__characteristic_setattr__''
       = Some Object_setattr"
proof -
  have 1: "with_init_attrs [Name ''x''] None = Inr [Attribute_of_name ''x'']"
    by (simp add: with_init_attrs_def dict_get_def)
  have 2: "cl_dict Point ''__original_setattr__'' = None" "cl_keys Point = []"
    by (simp_all add: Point_def)
  have 3: "class_setattr Point = Object_setattr"
    by (simp add: Point_def class_setattr_def class_getattr_def)
  have 4: "set (map name (ensure_attributes [Name ''x''])) = {''x''}"
    by (simp add: ensure_attributes_def Attribute_of_name_def)
  note t = attributes_order_and_binding [where attrs = "[Name ''x'']" and defaults = None
      and new_attrs = "[Attribute_of_name ''x'']" and cl = Point
      and create_init = True and make_immutable = True and n = 0 and args = "[]" and kw = "[]"
      and self = "\<lparr>ob_type = cl_type Point, ob_dict = Map.empty\<rparr>"]
  from t have a: "attributes [Name ''x''] None True True Point =
     (None, with_init_wrap [Attribute_of_name ''x'']
              (immutable [Name ''x''] (with_cmp [Name ''x''] (with_repr [Name ''x''] Point))))"
    using 1 by simp
  from t have b: "cl_keys (snd (attributes [Name ''x''] None True True Point)) =
       [''__repr__'', ''__eq__'', ''__ne__'', ''__lt__'', ''__le__'', ''__gt__'', ''__ge__'',
        ''__hash__'', ''__original_setattr__'', ''__setattr__'', ''__original_init__'',
        ''__init__'', ''__characteristic_setattr__'']"
    using 1 2 by blast
  from t 1 have c0: "cl_dict (snd (attributes [Name ''x''] None True True Point))
        ''__characteristic_setattr__'' = Some (class_setattr Point)"
      "class_setattr (snd (attributes [Name ''x''] None True True Point))
        = Fn_characteristic_immutability_sentry (set (map name (ensure_attributes [Name ''x''])))"
    by blast+
  have c: "cl_dict (snd (attributes [Name ''x''] None True True Point))
        ''__characteristic_setattr__'' = Some Object_setattr"
      "class_setattr (snd (attributes [Name ''x''] None True True Point))
        = Fn_characteristic_immutability_sentry {''x''}"
    using c0 3 4 by simp_all
  from t 1 2 have d0: "cl_dict (snd (attributes [Name ''x''] None True False Point))
        ''__characteristic_setattr__'' = Some (class_setattr Point)"
    by blast
  have d: "cl_dict (snd (attributes [Name ''x''] None True False Point))
        ''__characteristic_setattr__'' = Some Object_setattr"
    using d0 3 by simp
  from a b c d show ?thesis by blast
qed

text \<open>
  C5 as stated fails in its first two stages: the composer assigns \<^verbatim>\<open>__repr__\<close> to
  the class before \<^verbatim>\<open>__eq__\<close> and the other comparison names, whereas attaching the
  comparison first and the representation second, as the claim has it, leaves
  \<^verbatim>\<open>__repr__\<close> after them; the two classes differ in the order of their namespace.
\<close>

theorem attributes_order_counterexample:
  "cl_keys (snd (attributes [Name ''x''] None True True Point)) =
       [''__repr__'', ''__eq__'', ''__ne__'', ''__lt__'', ''__le__'', ''__gt__'', ''__ge__'',
        ''__hash__'', ''__original_setattr__'', ''__setattr__'', ''__original_init__'',
        ''__init__'', ''__characteristic_setattr__'']
   \<and> cl_keys (with_init_wrap [Attribute_of_name ''x'']
                (immutable [Name ''x''] (with_repr [Name ''x''] (with_cmp [Name ''x''] Point)))) =
       [''__eq__'', ''__ne__'', ''__lt__'', ''__le__'', ''__gt__'', ''__ge__'', ''__hash__'',
        ''__repr__'', ''__original_setattr__'', ''__setattr__'', ''__original_init__'',
        ''__init__'', ''__characteristic_setattr__'']
   \<and> snd (attributes [Name ''x''] None True True Point) \<noteq>
       with_init_wrap [Attribute_of_name ''x'']
         (immutable [Name ''x''] (with_repr [Name ''x''] (with_cmp [Name ''x''] Point)))"
proof -
  have 1: "with_init_attrs [Name ''x''] None = Inr [Attribute_of_name ''x'']"
    by (simp add: with_init_attrs_def dict_get_def)
  have k: "cl_keys Point = []" by (simp add: Point_def)
  have a: "snd (attributes [Name ''x''] None True True Point) =
      with_init_wrap [Attribute_of_name ''x'']
        (immutable [Name ''x''] (with_cmp [Name ''x''] (with_repr [Name ''x''] Point)))"
    using 1 by (simp add: attributes_ok)
  have b: "cl_keys (snd (attributes [Name ''x''] None True True Point)) =
       [''__repr__'', ''__eq__'', ''__ne__'', ''__lt__'', ''__le__'', ''__gt__'', ''__ge__'',
        ''__hash__'', ''__original_setattr__'', ''__setattr__'', ''__original_init__'',
        ''__init__'', ''__characteristic_setattr__'']"
    by (simp add: a cl_keys_with_init_wrap cl_keys_immutable cl_keys_cmp_repr [OF k] Let_def)
  have c: "cl_keys (with_init_wrap [Attribute_of_name ''x'']
                (immutable [Name ''x''] (with_repr [Name ''x''] (with_cmp [Name ''x''] Point)))) =
       [''__eq__'', ''__ne__'', ''__lt__'', ''__le__'', ''__gt__'', ''__ge__'', ''__hash__'',
        ''__repr__'', ''__original_setattr__'', ''__setattr__'', ''__original_init__'',
        ''__init__'', ''__characteristic_setattr__'']"
    by (simp add: cl_keys_with_init_wrap cl_keys_immutable cl_keys_repr_cmp [OF k] Let_def)
  have "snd (attributes [Name ''x''] None True True Point) \<noteq>
       with_init_wrap [Attribute_of_name ''x'']
         (immutable [Name ''x''] (with_repr [Name ''x''] (with_cmp [Name ''x''] Point)))"
  proof
    assume "snd (attributes [Name ''x''] None True True Point) =
       with_init_wrap [Attribute_of_name ''x'']
         (immutable [Name ''x''] (with_repr [Name ''x''] (with_cmp [Name ''x''] Point)))"
    then have "cl_keys (snd (attributes [Name ''x''] None True True Point)) =
       cl_keys (with_init_wrap [Attribute_of_name ''x'']
         (immutable [Name ''x''] (with_repr [Name ''x''] (with_cmp [Name ''x''] Point))))"
      by simp
    then show False unfolding b c by simp
  qed
  with b c show ?thesis by blast
qed

lemma new_attrs_loop_conflict:
  "d \<noteq> [] \<Longrightarrow> \<exists>a. Attr a \<in> set attrs \<Longrightarrow>
     new_attrs_loop d acc attrs = Inl (ValueError mixing_message)"
proof (induction attrs arbitrary: acc)
  case Nil
  then show ?case by simp
next
  case (Cons x attrs)
  show ?case
  proof (cases x)
    case (Attr a)
    then show ?thesis using Cons.prems(1) by simp
  next
    case (Name n)
    then have "\<exists>a. Attr a \<in> set attrs" using Cons.prems(2) by auto
    then have "\<And>acc. new_attrs_loop d acc attrs = Inl (ValueError mixing_message)"
      using Cons.IH Cons.prems(1) by blast
    then show ?thesis using Name
      by (simp add: Let_def Attribute_init_def)
  qed
qed

text \<open>
  C6, as amended. With a non-empty \<^verbatim>\<open>defaults\<close> mapping and an instance of
  \<^verbatim>\<open>Attribute\<close> among the attributes (with or without a default of its own),
  \<^verbatim>\<open>with_init\<close> raises the \<open>ValueError\<close> when it is called, before there is a
  decorator to apply to any class. The composer calls \<^verbatim>\<open>with_init\<close> last: applied to
  a class with \<open>create_init\<close> it raises the same error, and the class by then carries
  the comparison methods, the representation and (if \<open>make_immutable\<close>) the sentry;
  without \<open>create_init\<close> it does not raise.
\<close>

theorem conflicting_defaults:
  "d \<noteq> [] \<and> (\<exists>a. Attr a \<in> set attrs) \<longrightarrow>
     with_init attrs (Some d) = Inl (ValueError mixing_message)
     \<and> attributes attrs (Some d) True make_immutable cl =
         (Some (ValueError mixing_message),
          (if make_immutable then immutable attrs else id) (with_cmp attrs (with_repr attrs cl)))
     \<and> attributes attrs (Some d) False make_immutable cl =
         (None,
          (if make_immutable then immutable attrs else id) (with_cmp attrs (with_repr attrs cl)))"
proof (intro impI)
  assume "d \<noteq> [] \<and> (\<exists>a. Attr a \<in> set attrs)"
  then have "with_init_attrs attrs (Some d) = Inl (ValueError mixing_message)"
    by (simp add: with_init_attrs_def new_attrs_loop_conflict)
  then have w: "with_init attrs (Some d) = Inl (ValueError mixing_message)"
    by (simp add: with_init_def)
  show "with_init attrs (Some d) = Inl (ValueError mixing_message)
     \<and> attributes attrs (Some d) True make_immutable cl =
         (Some (ValueError mixing_message),
          (if make_immutable then immutable attrs else id) (with_cmp attrs (with_repr attrs cl)))
     \<and> attributes attrs (Some d) False make_immutable cl =
         (None,
          (if make_immutable then immutable attrs else id) (with_cmp attrs (with_repr attrs cl)))"
    by (simp add: w attributes_def Let_def)
qed

theorem conflicting_defaults_witness:
  "with_init [Attr \<lparr>name = ''x'', default' = Some (PyInt 1), default_factory = None\<rparr>]
      (Some [(''x'', PyInt 2)]) = Inl (ValueError mixing_message)
   \<and> attributes [Attr \<lparr>name = ''x'', default' = Some (PyInt 1), default_factory = None\<rparr>]
      (Some [(''x'', PyInt 2)]) True False Point
     = (Some (ValueError mixing_message),
        with_cmp [Attr \<lparr>name = ''x'', default' = Some (PyInt 1), default_factory = None\<rparr>]
          (with_repr [Attr \<lparr>name = ''x'', default' = Some (PyInt 1), default_factory = None\<rparr>]
             Point))"
  using conflicting_defaults [where d = "[(''x'', PyInt 2)]" and make_immutable = False and cl = Point
      and attrs = "[Attr \<lparr>name = ''x'', default' = Some (PyInt 1), default_factory = None\<rparr>]"]
  by simp

text \<open>
  C6 as stated fails: the composer, given the attribute \<open>x\<close> with default \<open>1\<close> and
  the mapping \<^verbatim>\<open>{"x": 2}\<close>, raises only after it has assigned \<^verbatim>\<open>__eq__\<close> and the sentry
  to the class \<open>Point\<close>, which had neither; and with \<open>create_init\<close> false it does not
  raise at all.
\<close>

theorem conflicting_defaults_counterexample:
  "fst (attributes [Attr \<lparr>name = ''x'', default' = Some (PyInt 1), default_factory = None\<rparr>]
          (Some [(''x'', PyInt 2)]) True True Point) = Some (ValueError mixing_message)
   \<and> cl_dict Point ''__eq__'' = None
   \<and> cl_dict (snd (attributes
          [Attr \<lparr>name = ''x'', default' = Some (PyInt 1), default_factory = None\<rparr>]
          (Some [(''x'', PyInt 2)]) True True Point)) ''__eq__''
       = Some (Fn_eq [\<lparr>name = ''x'', default' = Some (PyInt 1), default_factory = None\<rparr>])
   \<and> cl_dict Point ''__setattr__'' = None
   \<and> cl_dict (snd (attributes
          [Attr \<lparr>name = ''x'', default' = Some (PyInt 1), default_factory = None\<rparr>]
          (Some [(''x'', PyInt 2)]) True True Point)) ''__setattr__''
       = Some (Fn_characteristic_immutability_sentry {''x''})
   \<and> fst (attributes [Attr \<lparr>name = ''x'', default' = Some (PyInt 1), default_factory = None\<rparr>]
          (Some [(''x'', PyInt 2)]) False True Point) = None"
  by (simp add: composer_defs Point_def)

end
